theory Spec2Isabelle
  imports Complex_Main "HOL-Library.Sublist"
begin

section \<open>The numeric kernels of utility_glm.cpp\<close>

text \<open>
  The file \<^verbatim>\<open>src/utility_glm.cpp\<close> holds seven functions over Armadillo column vectors
  of doubles. The embedding below keeps their names, their branch order and their constants.

  \<^item> A double is a \<^typ>\<open>real\<close>: arithmetic is exact, there is no rounding, no infinity
    and no NaN. Where the source divides by zero or takes the logarithm of a non-positive
    number (IEEE gives an infinity or a NaN there) the model has HOL's value of the total
    function; every statement about the link functions below stays strictly inside the
    domain where neither happens.
  \<^item> An \<^verbatim>\<open>arma::vec\<close> is a \<^typ>\<open>real list\<close>; \<^verbatim>\<open>n_elem\<close> is its length.
  \<^item> A family tag (\<^verbatim>\<open>const char*\<close>, compared with \<^verbatim>\<open>strcmp\<close>) is the
    \<^typ>\<open>string\<close> of the characters before the terminating NUL, and
    \<^verbatim>\<open>strcmp(a, b) == 0\<close> is equality of these strings.
  \<^item> A link code (\<^verbatim>\<open>int\<close>) is an \<^typ>\<open>int\<close>; it is only ever compared with constants.
  \<^item> \<^verbatim>\<open>stop(msg)\<close> of Rcpp raises an R error carrying \<^verbatim>\<open>msg\<close>. The source has
    one kind of exception; the two constructors below carry the message of the call and
    are named after the specification's taxonomy: the stops inside the loops of
    \<^verbatim>\<open>initial_mu\<close> are domain errors, the stops of the final \<^verbatim>\<open>else\<close> branches are
    unknown-family errors.
\<close>

datatype error =
    DomainError string
  | UnknownFamilyError string
  | OutOfBounds

text \<open>
  \<^verbatim>\<open>arma::vec v(N)\<close> allocates \<open>N\<close> doubles and does not set them. What the storage
  holds is a parameter \<open>fresh\<close> of the model: \<open>fresh i\<close> is the content of cell \<open>i\<close>.
\<close>

definition arma_vec :: "(nat \<Rightarrow> real) \<Rightarrow> nat \<Rightarrow> real list" where
  "arma_vec fresh N = map fresh [0..<N]"

definition ones :: "nat \<Rightarrow> real list" where
  "ones N = replicate N 1"

definition zeros :: "nat \<Rightarrow> real list" where
  "zeros N = replicate N 0"

text \<open>Element-wise operators of Armadillo on vectors of one length.\<close>

definition vec_add :: "real list \<Rightarrow> real list \<Rightarrow> real list" where
  "vec_add a b = map2 (+) a b"

definition vec_sub :: "real list \<Rightarrow> real list \<Rightarrow> real list" where
  "vec_sub a b = map2 (-) a b"

definition vec_mul :: "real list \<Rightarrow> real list \<Rightarrow> real list" where
  "vec_mul a b = map2 (*) a b"

definition vec_div :: "real list \<Rightarrow> real list \<Rightarrow> real list" where
  "vec_div a b = map2 (/) a b"

definition vec_neg :: "real list \<Rightarrow> real list" where
  "vec_neg a = map uminus a"

definition vec_log :: "real list \<Rightarrow> real list" where
  "vec_log a = map ln a"

definition vec_exp :: "real list \<Rightarrow> real list" where
  "vec_exp a = map exp a"

text \<open>
  \<^verbatim>\<open>for (i = 0; i < N; i++) body\<close>, where the body either raises or updates the vector
  being filled.
\<close>

function for_loop ::
  "(nat \<Rightarrow> real list \<Rightarrow> error + real list) \<Rightarrow> nat \<Rightarrow> nat \<Rightarrow> real list \<Rightarrow> error + real list"
where
  "for_loop body i N s =
     (if i < N then
        (case body i s of
           Inl e \<Rightarrow> Inl e
         | Inr s' \<Rightarrow> for_loop body (Suc i) N s')
      else Inr s)"
  by pat_completeness auto
termination
  by (relation "measure (\<lambda>(body, i, N, s). N - i)") auto

declare for_loop.simps [simp del]

subsection \<open>initial_mu\<close>

text \<open>
  The four loop bodies of \<^verbatim>\<open>initial_mu\<close>. \<^verbatim>\<open>y[i]\<close> is Armadillo's unchecked access:
  with \<open>N\<close> larger than the length of \<open>y\<close> the source reads past the end of the vector
  (undefined behaviour); the model stops there with \<open>OutOfBounds\<close>. The parameter
  \<^verbatim>\<open>int N\<close> is the number of cells to allocate and to fill; the model takes it as a
  natural number and says nothing about a negative \<open>N\<close>. The order of the checks inside
  a body and the texts of the messages, misspelling included, are those of the source.
\<close>

definition binomial_body :: "real list \<Rightarrow> nat \<Rightarrow> real list \<Rightarrow> error + real list" where
  "binomial_body y i mu =
     (if length y \<le> i then Inl OutOfBounds
      else if y ! i < 0 then
        Inl (DomainError ''negative values not allowed for the Binomial family'')
      else if y ! i > 1.0 then
        Inl (DomainError ''# of success is larger than 1'')
      else Inr (mu[i := (y ! i + 0.5) / (1.0 + 1.0)]))"

definition poisson_body :: "real list \<Rightarrow> nat \<Rightarrow> real list \<Rightarrow> error + real list" where
  "poisson_body y i mu =
     (if length y \<le> i then Inl OutOfBounds
      else if y ! i < 0 then
        Inl (DomainError ''negative values not allowed for the Poisson family'')
      else Inr (mu[i := y ! i + 0.1]))"

definition gaussian_body :: "real list \<Rightarrow> nat \<Rightarrow> real list \<Rightarrow> error + real list" where
  "gaussian_body y i mu =
     (if length y \<le> i then Inl OutOfBounds
      else Inr (mu[i := y ! i]))"

definition Gamma_body :: "real list \<Rightarrow> nat \<Rightarrow> real list \<Rightarrow> error + real list" where
  "Gamma_body y i mu =
     (if length y \<le> i then Inl OutOfBounds
      else if y ! i \<le> 0 then
        Inl (DomainError ''non-poistive values not allowed for the Gamma family'')
      else Inr (mu[i := y ! i + 0.1]))"

definition initial_mu :: "(nat \<Rightarrow> real) \<Rightarrow> string \<Rightarrow> real list \<Rightarrow> nat \<Rightarrow> error + real list" where
  "initial_mu fresh family y N =
     (let mu = arma_vec fresh N in
      if family = ''binomial'' then for_loop (binomial_body y) 0 N mu
      else if family = ''poisson'' then for_loop (poisson_body y) 0 N mu
      else if family = ''gaussian'' then for_loop (gaussian_body y) 0 N mu
      else if family = ''Gamma'' then for_loop (Gamma_body y) 0 N mu
      else Inr mu)"

subsection \<open>muvalid\<close>

text \<open>
  The result vector holds doubles: a comparison stored into it is \<open>1\<close> when it holds and
  \<open>0\<close> when it does not.
\<close>

definition invalid_family :: string where
  "invalid_family = ''invalid family '' @ [CHR 0x0A]"

definition muvalid :: "(nat \<Rightarrow> real) \<Rightarrow> string \<Rightarrow> real list \<Rightarrow> error + real list" where
  "muvalid fresh family mu =
     (let minb = 0.0001; maxb = 0.9999; minp = 0.0001; gammaMin = 0.001;
          N = length mu; valid = arma_vec fresh N in
      if family = ''binomial'' then
        for_loop (\<lambda>i valid. Inr (valid[i := of_bool (mu ! i > minb \<and> mu ! i < maxb)])) 0 N valid
      else if family = ''poisson'' then
        for_loop (\<lambda>i valid. Inr (valid[i := of_bool (mu ! i > minp)])) 0 N valid
      else if family = ''gaussian'' then
        for_loop (\<lambda>i valid. Inr (valid[i := 1])) 0 N valid
      else if family = ''Gamma'' then
        for_loop (\<lambda>i valid. Inr (valid[i := of_bool (mu ! i > gammaMin)])) 0 N valid
      else Inl (UnknownFamilyError invalid_family))"

subsection \<open>mu_adjust\<close>

definition mu_adjust :: "string \<Rightarrow> real list \<Rightarrow> error + real list" where
  "mu_adjust family mu =
     (let minb = 0.001; maxb = 0.999; minp = 0.001; gammaMin = 0.001;
          N = length mu; mu_new = mu in
      if family = ''binomial'' then
        for_loop (\<lambda>i mu_new.
            if mu ! i < minb then Inr (mu_new[i := minb])
            else if mu ! i > maxb then Inr (mu_new[i := maxb])
            else Inr mu_new) 0 N mu_new
      else if family = ''poisson'' then
        for_loop (\<lambda>i mu_new.
            if mu ! i < minp then Inr (mu_new[i := minp]) else Inr mu_new) 0 N mu_new
      else if family = ''Gamma'' then
        for_loop (\<lambda>i mu_new.
            if mu ! i < gammaMin then Inr (mu_new[i := gammaMin]) else Inr mu_new) 0 N mu_new
      else if family = ''gaussian'' then Inr mu
      else Inl (UnknownFamilyError invalid_family))"

subsection \<open>dlink, linkfun, invlink\<close>

definition dlink :: "int \<Rightarrow> real list \<Rightarrow> real list" where
  "dlink link mu =
     (let N = length mu; ones_vec = ones N; zeros_vec = zeros N in
      if link = 10 then vec_div ones_vec (vec_mul mu (vec_sub ones_vec mu))
      else if link = 11 then zeros_vec
      else if link = 12 then
        vec_div ones_vec (vec_mul (vec_log (vec_sub ones_vec mu)) (vec_sub ones_vec mu))
      else if link = 20 then vec_div ones_vec mu
      else if link = 30 then ones_vec
      else if link = 40 then vec_sub zeros_vec (vec_div ones_vec (vec_mul mu mu))
      else zeros_vec)"

definition linkfun :: "int \<Rightarrow> real list \<Rightarrow> real list" where
  "linkfun link mu =
     (let N = length mu; ones_vec = ones N in
      if link = 10 then vec_log (vec_div mu (vec_sub ones_vec mu))
      else if link = 11 then zeros N
      else if link = 12 then vec_log (vec_mul (vec_neg ones_vec) (vec_log (vec_sub ones_vec mu)))
      else if link = 20 then vec_log mu
      else if link = 30 then mu
      else if link = 40 then vec_div ones_vec mu
      else zeros N)"

definition invlink :: "int \<Rightarrow> real list \<Rightarrow> real list" where
  "invlink link eta =
     (let N = length eta; ones_vec = ones N; zeros_vec = zeros N in
      if link = 10 then vec_div (vec_exp eta) (vec_add ones_vec (vec_exp eta))
      else if link = 11 then zeros_vec
      else if link = 12 then
        vec_sub ones_vec (vec_exp (vec_sub zeros_vec (vec_mul ones_vec (vec_exp eta))))
      else if link = 20 then vec_exp eta
      else if link = 30 then eta
      else if link = 40 then vec_sub zeros_vec (vec_div ones_vec eta)
      else zeros_vec)"

subsection \<open>varfun\<close>

definition varfun :: "string \<Rightarrow> real list \<Rightarrow> error + real list" where
  "varfun family mu =
     (let N = length mu; ones_vec = ones N in
      if family = ''binomial'' then Inr (vec_mul mu (vec_sub ones_vec mu))
      else if family = ''poisson'' then Inr mu
      else if family = ''gaussian'' then Inr ones_vec
      else if family = ''Gamma'' then Inr (vec_mul mu mu)
      else Inl (UnknownFamilyError invalid_family))"

section \<open>Facts about the loop and the element-wise operators\<close>

lemma for_loop_done: "N \<le> i \<Longrightarrow> for_loop body i N s = Inr s"
  by (simp add: for_loop.simps)

lemma for_loop_step:
  "i < N \<Longrightarrow> for_loop body i N s =
     (case body i s of Inl e \<Rightarrow> Inl e | Inr s' \<Rightarrow> for_loop body (Suc i) N s')"
  by (subst for_loop.simps) simp

text \<open>A loop whose body stores into cell \<open>i\<close> when a test on \<open>i\<close> holds, and never raises.\<close>

lemma for_loop_adjust:
  assumes body: "\<And>i s. i < N \<Longrightarrow> body i s = Inr (if c i then s[i := g i] else s)"
  shows "k \<le> N \<Longrightarrow> length s = N \<Longrightarrow>
           for_loop body k N s = Inr (take k s @ map (\<lambda>i. if c i then g i else s ! i) [k..<N])"
proof (induction "N - k" arbitrary: k s)
  case 0
  then show ?case by (simp add: for_loop_done)
next
  case (Suc d)
  then have kN: "k < N" by simp
  have d: "d = N - Suc k" using Suc.hyps(2) by simp
  define s' where "s' = (if c k then s[k := g k] else s)"
  have len: "length s' = N" using Suc.prems by (simp add: s'_def)
  have later: "map (\<lambda>i. if c i then g i else s' ! i) [Suc k..<N] =
               map (\<lambda>i. if c i then g i else s ! i) [Suc k..<N]"
    by (rule map_cong) (auto simp: s'_def)
  have first: "take (Suc k) s' = take k s @ [if c k then g k else s ! k]"
    using kN Suc.prems by (simp add: s'_def take_Suc_conv_app_nth)
  have "for_loop body k N s = for_loop body (Suc k) N s'"
    using kN by (simp add: for_loop_step body s'_def)
  also have "\<dots> = Inr (take (Suc k) s' @ map (\<lambda>i. if c i then g i else s' ! i) [Suc k..<N])"
    using Suc.hyps(1)[OF d] kN len by simp
  finally show ?case using kN by (simp add: later first upt_conv_Cons)
qed

lemma for_loop_fill_all:
  assumes "\<And>i s. i < length s0 \<Longrightarrow> body i s = Inr (s[i := g i])"
  shows "for_loop body 0 (length s0) s0 = Inr (map g [0..<length s0])"
  using for_loop_adjust[of "length s0" body "\<lambda>_. True" g 0 s0] assms by simp

lemma for_loop_adjust_all:
  assumes "\<And>i s. i < length s0 \<Longrightarrow> body i s = Inr (if c i then s[i := g i] else s)"
  shows "for_loop body 0 (length s0) s0 =
           Inr (map (\<lambda>i. if c i then g i else s0 ! i) [0..<length s0])"
  using for_loop_adjust[of "length s0" body c g 0 s0] assms by simp

lemma map_upt_nth: "map (\<lambda>i. h (xs ! i)) [0..<length xs] = map h xs"
  by (rule nth_equalityI) simp_all

text \<open>
  A loop whose body first checks \<open>y[i]\<close> and raises, or else stores a function of
  \<open>y[i]\<close> into cell \<open>i\<close>: it raises the error of the first element that fails the check.
\<close>

lemma for_loop_checked:
  assumes body: "\<And>i s. i < N \<Longrightarrow>
      body i s = (case chk (y ! i) of Some e \<Rightarrow> Inl e | None \<Rightarrow> Inr (s[i := f (y ! i)]))"
    and len: "length y = N"
  shows "k \<le> N \<Longrightarrow> length s = N \<Longrightarrow>
           for_loop body k N s =
             (case List.find (\<lambda>v. chk v \<noteq> None) (drop k y) of
                Some v \<Rightarrow> Inl (the (chk v))
              | None \<Rightarrow> Inr (take k s @ map f (drop k y)))"
proof (induction "N - k" arbitrary: k s)
  case 0
  then show ?case using len by (simp add: for_loop_done)
next
  case (Suc d)
  then have kN: "k < N" by simp
  have d: "d = N - Suc k" using Suc.hyps(2) by simp
  have dr: "drop k y = y ! k # drop (Suc k) y"
    using kN len by (simp add: Cons_nth_drop_Suc)
  show ?case
  proof (cases "chk (y ! k)")
    case (Some e)
    then show ?thesis using kN by (simp add: for_loop_step body dr)
  next
    case None
    have "for_loop body k N s = for_loop body (Suc k) N (s[k := f (y ! k)])"
      using kN None by (simp add: for_loop_step body)
    also have "\<dots> = (case List.find (\<lambda>v. chk v \<noteq> None) (drop (Suc k) y) of
                Some v \<Rightarrow> Inl (the (chk v))
              | None \<Rightarrow> Inr (take (Suc k) (s[k := f (y ! k)]) @ map f (drop (Suc k) y)))"
      using Suc.hyps(1)[OF d] kN Suc.prems by simp
    also have "take (Suc k) (s[k := f (y ! k)]) = take k s @ [f (y ! k)]"
      using kN Suc.prems by (simp add: take_Suc_conv_app_nth)
    finally show ?thesis using None by (simp add: dr split: option.split)
  qed
qed

lemma length_arma_vec: "length (arma_vec fresh N) = N"
  by (simp add: arma_vec_def)

lemma all_one: "(\<And>x. x \<in> set xs \<Longrightarrow> g x = (1::real)) \<Longrightarrow> map g xs = replicate (length xs) 1"
  by (induction xs) simp_all

text \<open>Two vectors zipped by an operator, when both come from one vector.\<close>

lemma map2_replicate_left: "map2 f (replicate (length xs) c) xs = map (f c) xs"
  by (induction xs) simp_all

lemma map2_replicate_right: "map2 f xs (replicate (length xs) c) = map (\<lambda>x. f x c) xs"
  by (induction xs) simp_all

lemma map2_map_map: "map2 f (map g xs) (map h xs) = map (\<lambda>x. f (g x) (h x)) xs"
  by (induction xs) simp_all

lemma map2_id_map: "map2 f xs (map h xs) = map (\<lambda>x. f x (h x)) xs"
  by (induction xs) simp_all

lemma map2_map_id: "map2 f (map g xs) xs = map (\<lambda>x. f (g x) x) xs"
  by (induction xs) simp_all

lemma map2_id_id: "map2 f xs xs = map (\<lambda>x. f x x) xs"
  by (induction xs) simp_all

lemma map2_replicate_map:
  "map2 f (replicate (length xs) c) (map h xs) = map (\<lambda>x. f c (h x)) xs"
  by (induction xs) simp_all

lemmas vec_defs =
  ones_def zeros_def vec_add_def vec_sub_def vec_mul_def vec_div_def vec_neg_def
  vec_log_def vec_exp_def

lemmas map2_simps =
  map2_replicate_left map2_replicate_right map2_map_map map2_id_map map2_map_id
  map2_id_id map2_replicate_map

text \<open>Length and cells of the element-wise operators.\<close>

lemma vec_length [simp]:
  "length (ones N) = N"
  "length (zeros N) = N"
  "length (vec_add a b) = min (length a) (length b)"
  "length (vec_sub a b) = min (length a) (length b)"
  "length (vec_mul a b) = min (length a) (length b)"
  "length (vec_div a b) = min (length a) (length b)"
  "length (vec_neg a) = length a"
  "length (vec_log a) = length a"
  "length (vec_exp a) = length a"
  by (simp_all add: vec_defs)

lemma vec_nth [simp]:
  "i < N \<Longrightarrow> ones N ! i = 1"
  "i < N \<Longrightarrow> zeros N ! i = 0"
  "i < length a \<Longrightarrow> i < length b \<Longrightarrow> vec_add a b ! i = a ! i + b ! i"
  "i < length a \<Longrightarrow> i < length b \<Longrightarrow> vec_sub a b ! i = a ! i - b ! i"
  "i < length a \<Longrightarrow> i < length b \<Longrightarrow> vec_mul a b ! i = a ! i * b ! i"
  "i < length a \<Longrightarrow> i < length b \<Longrightarrow> vec_div a b ! i = a ! i / b ! i"
  "i < length a \<Longrightarrow> vec_neg a ! i = - (a ! i)"
  "i < length a \<Longrightarrow> vec_log a ! i = ln (a ! i)"
  "i < length a \<Longrightarrow> vec_exp a ! i = exp (a ! i)"
  by (simp_all add: vec_defs)

section \<open>The kernels, element by element\<close>

subsection \<open>muvalid\<close>

text \<open>The loops of \<open>muvalid\<close> overwrite every cell of the vector they allocated.\<close>

lemma muvalid_loop:
  "for_loop (\<lambda>i valid. Inr (valid[i := g (mu ! i)])) 0 (length mu)
     (arma_vec fresh (length mu)) = Inr (map g mu)"
  using for_loop_fill_all[of "arma_vec fresh (length mu)"
          "\<lambda>i valid. Inr (valid[i := g (mu ! i)])" "\<lambda>i. g (mu ! i)"]
  by (simp add: length_arma_vec map_upt_nth)

lemma muvalid_binomial:
  "muvalid fresh ''binomial'' mu = Inr (map (\<lambda>m. of_bool (m > 0.0001 \<and> m < 0.9999)) mu)"
proof -
  have "muvalid fresh ''binomial'' mu =
      for_loop (\<lambda>i valid. Inr (valid[i := of_bool (mu ! i > 0.0001 \<and> mu ! i < 0.9999)]))
        0 (length mu) (arma_vec fresh (length mu))"
    unfolding muvalid_def Let_def by simp
  then show ?thesis
    by (simp only: muvalid_loop[of "\<lambda>m. of_bool (m > 0.0001 \<and> m < 0.9999)"])
qed

lemma muvalid_poisson:
  "muvalid fresh ''poisson'' mu = Inr (map (\<lambda>m. of_bool (m > 0.0001)) mu)"
proof -
  have "muvalid fresh ''poisson'' mu =
      for_loop (\<lambda>i valid. Inr (valid[i := of_bool (mu ! i > 0.0001)]))
        0 (length mu) (arma_vec fresh (length mu))"
    unfolding muvalid_def Let_def by simp
  then show ?thesis
    by (simp only: muvalid_loop[of "\<lambda>m. of_bool (m > 0.0001)"])
qed

lemma muvalid_Gamma:
  "muvalid fresh ''Gamma'' mu = Inr (map (\<lambda>m. of_bool (m > 0.001)) mu)"
proof -
  have "muvalid fresh ''Gamma'' mu =
      for_loop (\<lambda>i valid. Inr (valid[i := of_bool (mu ! i > 0.001)]))
        0 (length mu) (arma_vec fresh (length mu))"
    unfolding muvalid_def Let_def by simp
  then show ?thesis
    by (simp only: muvalid_loop[of "\<lambda>m. of_bool (m > 0.001)"])
qed

lemma muvalid_gaussian:
  "muvalid fresh ''gaussian'' mu = Inr (map (\<lambda>m. 1) mu)"
proof -
  have "muvalid fresh ''gaussian'' mu =
      for_loop (\<lambda>i valid. Inr (valid[i := 1]))
        0 (length mu) (arma_vec fresh (length mu))"
    unfolding muvalid_def Let_def by simp
  then show ?thesis
    by (simp only: muvalid_loop[of "\<lambda>m. 1"])
qed

subsection \<open>mu_adjust\<close>

text \<open>The loops of \<open>mu_adjust\<close>, for any bounds.\<close>

lemma clamp_loop:
  "for_loop (\<lambda>i mu_new.
       if mu ! i < lo then Inr (mu_new[i := lo])
       else if mu ! i > hi then Inr (mu_new[i := hi])
       else Inr mu_new) 0 (length mu) mu =
   Inr (map (\<lambda>m. if m < lo then lo else if m > hi then hi else m) mu)"
proof -
  have "for_loop (\<lambda>i mu_new.
            if mu ! i < lo then Inr (mu_new[i := lo])
            else if mu ! i > hi then Inr (mu_new[i := hi])
            else Inr mu_new) 0 (length mu) mu =
        Inr (map (\<lambda>i. if mu ! i < lo \<or> mu ! i > hi
                       then (if mu ! i < lo then lo else hi) else mu ! i) [0..<length mu])"
    by (rule for_loop_adjust_all) auto
  also have "map (\<lambda>i. if mu ! i < lo \<or> mu ! i > hi
                       then (if mu ! i < lo then lo else hi) else mu ! i) [0..<length mu]
             = map (\<lambda>m. if m < lo then lo else if m > hi then hi else m) mu"
    by (rule nth_equalityI) auto
  finally show ?thesis .
qed

lemma clamp_low_loop:
  "for_loop (\<lambda>i mu_new.
       if mu ! i < lo then Inr (mu_new[i := lo]) else Inr mu_new) 0 (length mu) mu =
   Inr (map (\<lambda>m. if m < lo then lo else m) mu)"
proof -
  have "for_loop (\<lambda>i mu_new.
            if mu ! i < lo then Inr (mu_new[i := lo]) else Inr mu_new) 0 (length mu) mu =
        Inr (map (\<lambda>i. if mu ! i < lo then lo else mu ! i) [0..<length mu])"
    by (rule for_loop_adjust_all) auto
  also have "map (\<lambda>i. if mu ! i < lo then lo else mu ! i) [0..<length mu]
             = map (\<lambda>m. if m < lo then lo else m) mu"
    by (rule nth_equalityI) auto
  finally show ?thesis .
qed

lemma mu_adjust_binomial:
  "mu_adjust ''binomial'' mu =
     Inr (map (\<lambda>m. if m < 0.001 then 0.001 else if m > 0.999 then 0.999 else m) mu)"
proof -
  have "mu_adjust ''binomial'' mu =
      for_loop (\<lambda>i mu_new.
            if mu ! i < 0.001 then Inr (mu_new[i := 0.001])
            else if mu ! i > 0.999 then Inr (mu_new[i := 0.999])
            else Inr mu_new) 0 (length mu) mu"
    unfolding mu_adjust_def Let_def by simp
  then show ?thesis by (simp only: clamp_loop)
qed

lemma mu_adjust_poisson:
  "mu_adjust ''poisson'' mu = Inr (map (\<lambda>m. if m < 0.001 then 0.001 else m) mu)"
proof -
  have "mu_adjust ''poisson'' mu =
      for_loop (\<lambda>i mu_new.
            if mu ! i < 0.001 then Inr (mu_new[i := 0.001]) else Inr mu_new) 0 (length mu) mu"
    unfolding mu_adjust_def Let_def by simp
  then show ?thesis by (simp only: clamp_low_loop)
qed

lemma mu_adjust_Gamma:
  "mu_adjust ''Gamma'' mu = Inr (map (\<lambda>m. if m < 0.001 then 0.001 else m) mu)"
proof -
  have "mu_adjust ''Gamma'' mu =
      for_loop (\<lambda>i mu_new.
            if mu ! i < 0.001 then Inr (mu_new[i := 0.001]) else Inr mu_new) 0 (length mu) mu"
    unfolding mu_adjust_def Let_def by simp
  then show ?thesis by (simp only: clamp_low_loop)
qed

lemma mu_adjust_gaussian: "mu_adjust ''gaussian'' mu = Inr mu"
  by (simp add: mu_adjust_def)

text \<open>
  An element that \<open>mu_adjust\<close> clamps: for Binomial and Poisson the clamped value
  passes \<open>muvalid\<close>, for Gamma it does not, since both functions use \<open>0.001\<close> there
  and the comparison of \<open>muvalid\<close> is strict.
\<close>

lemma clamped_valid_binomial:
  "i < length mu \<Longrightarrow> mu ! i < 0.001 \<or> mu ! i > 0.999 \<Longrightarrow>
   \<exists>a v. mu_adjust ''binomial'' mu = Inr a \<and> a ! i \<in> {0.001, 0.999} \<and>
         muvalid fresh ''binomial'' a = Inr v \<and> v ! i = 1"
  by (auto simp: mu_adjust_binomial muvalid_binomial)

lemma clamped_valid_poisson:
  "i < length mu \<Longrightarrow> mu ! i < 0.001 \<Longrightarrow>
   \<exists>a v. mu_adjust ''poisson'' mu = Inr a \<and> a ! i = 0.001 \<and>
         muvalid fresh ''poisson'' a = Inr v \<and> v ! i = 1"
  by (auto simp: mu_adjust_poisson muvalid_poisson)

lemma clamped_invalid_Gamma:
  "i < length mu \<Longrightarrow> mu ! i < 0.001 \<Longrightarrow>
   \<exists>a v. mu_adjust ''Gamma'' mu = Inr a \<and> a ! i = 0.001 \<and>
         muvalid fresh ''Gamma'' a = Inr v \<and> v ! i = 0"
  by (auto simp: mu_adjust_Gamma muvalid_Gamma)

subsection \<open>initial_mu\<close>

text \<open>The loops of \<open>initial_mu\<close> on a response vector whose length is the \<open>N\<close> given.\<close>

lemma initial_mu_loop:
  assumes "\<And>i s. i < length y \<Longrightarrow>
      body i s = (case chk (y ! i) of Some e \<Rightarrow> Inl e | None \<Rightarrow> Inr (s[i := f (y ! i)]))"
  shows "for_loop body 0 (length y) (arma_vec fresh (length y)) =
           (case List.find (\<lambda>v. chk v \<noteq> None) y of
              Some v \<Rightarrow> Inl (the (chk v))
            | None \<Rightarrow> Inr (map f y))"
  using for_loop_checked[where N = "length y" and body = body and chk = chk and y = y
      and f = f and k = 0 and s = "arma_vec fresh (length y)"] assms
  by (simp add: length_arma_vec cong: option.case_cong)

lemma initial_mu_binomial:
  "initial_mu fresh ''binomial'' y (length y) =
     (case List.find (\<lambda>v. v < 0 \<or> 1 < v) y of
        None \<Rightarrow> Inr (map (\<lambda>v. (v + 0.5) / 2) y)
      | Some v \<Rightarrow> Inl (DomainError
          (if v < 0 then ''negative values not allowed for the Binomial family''
           else ''# of success is larger than 1'')))"
proof -
  define chk :: "real \<Rightarrow> error option" where
    "chk v = (if v < 0 then Some (DomainError ''negative values not allowed for the Binomial family'')
              else if 1 < v then Some (DomainError ''# of success is larger than 1'')
              else None)" for v
  have p: "(\<lambda>v. chk v \<noteq> None) = (\<lambda>v. v < 0 \<or> 1 < v)"
    by (auto simp: chk_def)
  have "for_loop (binomial_body y) 0 (length y) (arma_vec fresh (length y)) =
           (case List.find (\<lambda>v. chk v \<noteq> None) y of
              Some v \<Rightarrow> Inl (the (chk v))
            | None \<Rightarrow> Inr (map (\<lambda>v. (v + 0.5) / 2) y))"
    by (rule initial_mu_loop) (simp add: binomial_body_def chk_def)
  then show ?thesis
    unfolding p by (auto simp: initial_mu_def chk_def split: option.splits dest: find_Some_iff[THEN iffD1])
qed

lemma initial_mu_poisson:
  "initial_mu fresh ''poisson'' y (length y) =
     (case List.find (\<lambda>v. v < 0) y of
        None \<Rightarrow> Inr (map (\<lambda>v. v + 0.1) y)
      | Some v \<Rightarrow> Inl (DomainError ''negative values not allowed for the Poisson family''))"
proof -
  define chk :: "real \<Rightarrow> error option" where
    "chk v = (if v < 0 then Some (DomainError ''negative values not allowed for the Poisson family'')
              else None)" for v
  have p: "(\<lambda>v. chk v \<noteq> None) = (\<lambda>v. v < 0)"
    by (auto simp: chk_def)
  have "for_loop (poisson_body y) 0 (length y) (arma_vec fresh (length y)) =
           (case List.find (\<lambda>v. chk v \<noteq> None) y of
              Some v \<Rightarrow> Inl (the (chk v))
            | None \<Rightarrow> Inr (map (\<lambda>v. v + 0.1) y))"
    by (rule initial_mu_loop) (simp add: poisson_body_def chk_def)
  then show ?thesis
    unfolding p by (auto simp: initial_mu_def chk_def split: option.splits dest: find_Some_iff[THEN iffD1])
qed

lemma initial_mu_Gamma:
  "initial_mu fresh ''Gamma'' y (length y) =
     (case List.find (\<lambda>v. v \<le> 0) y of
        None \<Rightarrow> Inr (map (\<lambda>v. v + 0.1) y)
      | Some v \<Rightarrow> Inl (DomainError ''non-poistive values not allowed for the Gamma family''))"
proof -
  define chk :: "real \<Rightarrow> error option" where
    "chk v = (if v \<le> 0 then Some (DomainError ''non-poistive values not allowed for the Gamma family'')
              else None)" for v
  have p: "(\<lambda>v. chk v \<noteq> None) = (\<lambda>v. v \<le> 0)"
    by (auto simp: chk_def)
  have "for_loop (Gamma_body y) 0 (length y) (arma_vec fresh (length y)) =
           (case List.find (\<lambda>v. chk v \<noteq> None) y of
              Some v \<Rightarrow> Inl (the (chk v))
            | None \<Rightarrow> Inr (map (\<lambda>v. v + 0.1) y))"
    by (rule initial_mu_loop) (simp add: Gamma_body_def chk_def)
  then show ?thesis
    unfolding p by (auto simp: initial_mu_def chk_def split: option.splits dest: find_Some_iff[THEN iffD1])
qed

lemma initial_mu_gaussian:
  "initial_mu fresh ''gaussian'' y (length y) = Inr y"
proof -
  have "for_loop (gaussian_body y) 0 (length y) (arma_vec fresh (length y)) =
           (case List.find (\<lambda>v. (\<lambda>_. None :: error option) v \<noteq> None) y of
              Some v \<Rightarrow> Inl (the ((\<lambda>_. None) v))
            | None \<Rightarrow> Inr (map (\<lambda>v. v) y))"
    by (rule initial_mu_loop) (simp add: gaussian_body_def)
  moreover have "List.find (\<lambda>v. False) y = None"
    by (simp add: find_None_iff)
  ultimately show ?thesis
    by (simp add: initial_mu_def)
qed

subsection \<open>The link functions\<close>

text \<open>What each implemented link code computes in every cell.\<close>

lemma linkfun_pointwise:
  "linkfun 10 mu = map (\<lambda>m. ln (m / (1 - m))) mu"
  "linkfun 12 mu = map (\<lambda>m. ln (- 1 * ln (1 - m))) mu"
  "linkfun 20 mu = map ln mu"
  "linkfun 30 mu = mu"
  "linkfun 40 mu = map (\<lambda>m. 1 / m) mu"
  by (rule nth_equalityI; simp add: linkfun_def Let_def)+

lemma dlink_pointwise:
  "dlink 10 mu = map (\<lambda>m. 1 / (m * (1 - m))) mu"
  "dlink 12 mu = map (\<lambda>m. 1 / (ln (1 - m) * (1 - m))) mu"
  "dlink 20 mu = map (\<lambda>m. 1 / m) mu"
  "dlink 30 mu = replicate (length mu) 1"
  "dlink 40 mu = map (\<lambda>m. 0 - 1 / (m * m)) mu"
  by (rule nth_equalityI; simp add: dlink_def Let_def)+

lemma invlink_pointwise:
  "invlink 10 eta = map (\<lambda>e. exp e / (1 + exp e)) eta"
  "invlink 12 eta = map (\<lambda>e. 1 - exp (0 - 1 * exp e)) eta"
  "invlink 20 eta = map exp eta"
  "invlink 30 eta = eta"
  "invlink 40 eta = map (\<lambda>e. 0 - 1 / e) eta"
  by (rule nth_equalityI; simp add: invlink_def Let_def)+

text \<open>
  \<open>invlink\<close> after \<open>linkfun\<close>: the identity for the codes 10, 12, 20 and 30 inside
  the domain of the link, and the negation for code 40, whose \<open>linkfun\<close> is \<open>1 / mu\<close>
  and whose \<open>invlink\<close> is \<open>- 1 / eta\<close>.
\<close>

lemma roundtrip_logit:
  assumes "\<forall>m\<in>set mu. 0 < m \<and> m < 1"
  shows "invlink 10 (linkfun 10 mu) = mu"
proof -
  have "exp (ln (m / (1 - m))) / (1 + exp (ln (m / (1 - m)))) = m" if "m \<in> set mu" for m
  proof -
    have m: "0 < m" "m < 1" using assms that by auto
    then have "0 < m / (1 - m)" by simp
    then have "exp (ln (m / (1 - m))) = m / (1 - m)" by simp
    then show ?thesis using m by (simp add: field_simps)
  qed
  then show ?thesis
    by (simp add: linkfun_pointwise invlink_pointwise map_idI)
qed

lemma roundtrip_cloglog:
  assumes "\<forall>m\<in>set mu. 0 < m \<and> m < 1"
  shows "invlink 12 (linkfun 12 mu) = mu"
proof -
  have "1 - exp (0 - 1 * exp (ln (- 1 * ln (1 - m)))) = m" if "m \<in> set mu" for m
  proof -
    have m: "0 < m" "m < 1" using assms that by auto
    then have "ln (1 - m) < 0" by simp
    then have "exp (ln (- 1 * ln (1 - m))) = - ln (1 - m)" by simp
    then show ?thesis using m by simp
  qed
  then show ?thesis
    by (simp add: linkfun_pointwise invlink_pointwise map_idI)
qed

lemma roundtrip_log:
  assumes "\<forall>m\<in>set mu. 0 < m"
  shows "invlink 20 (linkfun 20 mu) = mu"
  using assms by (simp add: linkfun_pointwise invlink_pointwise map_idI)

lemma roundtrip_identity: "invlink 30 (linkfun 30 mu) = mu"
  by (simp add: linkfun_pointwise invlink_pointwise)

lemma roundtrip_inverse_negates:
  "invlink 40 (linkfun 40 mu) = map uminus mu"
  by (simp add: linkfun_pointwise invlink_pointwise)

text \<open>
  \<open>dlink\<close> against the derivative of cell \<open>i\<close> of \<open>linkfun\<close> with respect to cell
  \<open>i\<close> of its argument: equal for the codes 10, 20, 30 and 40, and of the opposite sign
  for code 12, where the derivative of \<open>ln (- ln (1 - x))\<close> is
  \<open>- 1 / (ln (1 - x) * (1 - x))\<close>.
\<close>

lemma logit_derivative:
  assumes "0 < m" "m < 1"
  shows "((\<lambda>x. ln (x / (1 - x))) has_real_derivative 1 / (m * (1 - m))) (at m)"
proof -
  have nz: "1 - m \<noteq> 0" "m \<noteq> 0" using assms by simp_all
  have inner: "((\<lambda>x. x / (1 - x)) has_real_derivative
                 (1 * (1 - m) - m * (0 - 1)) / ((1 - m) * (1 - m))) (at m)"
    by (rule DERIV_divide) (use nz in \<open>auto intro!: derivative_eq_intros\<close>)
  have outer: "(ln has_real_derivative 1 / (m / (1 - m))) (at (m / (1 - m)))"
    using assms by (intro DERIV_ln_divide) simp
  have "((\<lambda>x. ln (x / (1 - x))) has_real_derivative
          1 / (m / (1 - m)) * ((1 * (1 - m) - m * (0 - 1)) / ((1 - m) * (1 - m)))) (at m)"
    using outer inner by (rule DERIV_chain2)
  moreover have "1 / (m / (1 - m)) * ((1 * (1 - m) - m * (0 - 1)) / ((1 - m) * (1 - m))) =
                 1 / (m * (1 - m))"
  proof -
    have top: "1 * (1 - m) - m * (0 - 1) = 1" by simp
    have "1 / (m / d) * (1 / (d * d)) = 1 / (m * d)" if "d \<noteq> 0" for d :: real
      using that nz(2) by (simp add: field_simps)
    from this[OF nz(1)] show ?thesis unfolding top .
  qed
  ultimately show ?thesis by simp
qed

lemma dlink_logit:
  assumes "i < length mu" "0 < mu ! i" "mu ! i < 1"
  shows "((\<lambda>x. linkfun 10 (mu[i := x]) ! i) has_real_derivative dlink 10 mu ! i) (at (mu ! i))"
  using logit_derivative[OF assms(2,3)] assms(1)
  by (simp add: linkfun_pointwise dlink_pointwise)

lemma dlink_log:
  assumes "i < length mu" "0 < mu ! i"
  shows "((\<lambda>x. linkfun 20 (mu[i := x]) ! i) has_real_derivative dlink 20 mu ! i) (at (mu ! i))"
proof -
  have "(ln has_real_derivative 1 / (mu ! i)) (at (mu ! i))"
    using assms by (auto intro!: derivative_eq_intros)
  then show ?thesis
    using assms(1) by (simp add: linkfun_pointwise dlink_pointwise)
qed

lemma dlink_identity:
  assumes "i < length mu"
  shows "((\<lambda>x. linkfun 30 (mu[i := x]) ! i) has_real_derivative dlink 30 mu ! i) (at (mu ! i))"
  using assms by (simp add: linkfun_pointwise dlink_pointwise)

lemma dlink_inverse:
  assumes "i < length mu" "0 < mu ! i"
  shows "((\<lambda>x. linkfun 40 (mu[i := x]) ! i) has_real_derivative dlink 40 mu ! i) (at (mu ! i))"
proof -
  define m where "m = mu ! i"
  have m: "0 < m" using assms by (simp add: m_def)
  have "((\<lambda>x. 1 / x) has_real_derivative 0 - 1 / (m * m)) (at m)"
    using m by (auto intro!: derivative_eq_intros simp: field_simps)
  then show ?thesis
    using assms(1) by (simp add: linkfun_pointwise dlink_pointwise m_def)
qed

lemma cloglog_derivative:
  assumes "0 < m" "m < 1"
  shows "((\<lambda>x. ln (- 1 * ln (1 - x))) has_real_derivative - (1 / (ln (1 - m) * (1 - m)))) (at m)"
proof -
  have neg: "ln (1 - m) < 0" using assms by simp
  have inner: "((\<lambda>x. - 1 * ln (1 - x)) has_real_derivative 1 / (1 - m)) (at m)"
    using assms by (auto intro!: derivative_eq_intros)
  have outer: "(ln has_real_derivative 1 / (- 1 * ln (1 - m))) (at (- 1 * ln (1 - m)))"
    using neg by (intro DERIV_ln_divide) simp
  have "((\<lambda>x. ln (- 1 * ln (1 - x))) has_real_derivative
          1 / (- 1 * ln (1 - m)) * (1 / (1 - m))) (at m)"
    using outer inner by (rule DERIV_chain2)
  moreover have "1 / (- 1 * ln (1 - m)) * (1 / (1 - m)) = - (1 / (ln (1 - m) * (1 - m)))"
    by simp
  ultimately show ?thesis by simp
qed

lemma dlink_cloglog_negated:
  assumes "i < length mu" "0 < mu ! i" "mu ! i < 1"
  shows "((\<lambda>x. linkfun 12 (mu[i := x]) ! i) has_real_derivative - (dlink 12 mu ! i)) (at (mu ! i))"
  using cloglog_derivative[OF assms(2,3)] assms(1)
  by (simp add: linkfun_pointwise dlink_pointwise)

section \<open>Claims\<close>

text \<open>
  C1. The claim: at every position where \<open>mu_adjust\<close> clamped an element to its
  boundary constant, \<open>muvalid\<close> of the adjusted vector is true. It holds for Binomial and
  Poisson (\<open>clamped_valid_binomial\<close>, \<open>clamped_valid_poisson\<close>) and fails for Gamma:
  the mean \<open>0\<close> is clamped to \<open>0.001\<close>, and \<open>muvalid\<close> reports \<open>0.001\<close> as not
  valid, for any content of the vector it allocates.
\<close>

theorem Gamma_clamp_not_valid:
  "mu_adjust ''Gamma'' [0] = Inr [0.001] \<and> muvalid fresh ''Gamma'' [0.001] = Inr [0]"
  by (simp add: mu_adjust_Gamma muvalid_Gamma)

text \<open>
  C2. The claim: \<open>invlink\<close> after \<open>linkfun\<close> gives \<open>mu\<close> back for every implemented
  link other than probit. It holds for the codes 10, 12, 20 and 30 (\<open>roundtrip_logit\<close>,
  \<open>roundtrip_cloglog\<close>, \<open>roundtrip_log\<close>, \<open>roundtrip_identity\<close>) and fails for the
  inverse link, code 40: the mean \<open>2\<close> is mapped to \<open>1 / 2\<close> and back to \<open>- 2\<close>.
\<close>

theorem inverse_link_roundtrip_fails:
  "linkfun 40 [2] = [1 / 2] \<and> invlink 40 [1 / 2] = [- 2] \<and>
   invlink 40 (linkfun 40 [2]) \<noteq> [2]"
  by (simp add: linkfun_pointwise invlink_pointwise)

text \<open>
  C3. The claim: \<open>dlink\<close> is the derivative of \<open>linkfun\<close> at every interior point,
  for every implemented link. It holds for the codes 10, 20, 30 and 40 (\<open>dlink_logit\<close>,
  \<open>dlink_log\<close>, \<open>dlink_identity\<close>, \<open>dlink_inverse\<close>) and fails for cloglog, code 12:
  at \<open>mu = 1 / 2\<close> the derivative of \<open>linkfun\<close> is \<open>2 / ln 2\<close>, and \<open>dlink\<close>
  returns \<open>- (2 / ln 2)\<close>.
\<close>

theorem dlink_cloglog_wrong_sign:
  "dlink 12 [1 / 2] = [- (2 / ln 2)] \<and>
   ((\<lambda>x. linkfun 12 [x] ! 0) has_real_derivative 2 / ln 2) (at (1 / 2)) \<and>
   \<not> ((\<lambda>x. linkfun 12 [x] ! 0) has_real_derivative dlink 12 [1 / 2] ! 0) (at (1 / 2))"
proof -
  have half: "ln (1 / 2 :: real) = - ln 2"
    by (simp add: ln_div)
  have pos: "0 < ln (2::real)" by simp
  have d: "dlink 12 [1 / 2] = [- (2 / ln 2)]"
    by (simp add: dlink_pointwise half)
  have "((\<lambda>x. ln (- 1 * ln (1 - x))) has_real_derivative
          - (1 / (ln (1 - 1 / 2) * (1 - 1 / 2)))) (at (1 / 2 :: real))"
    by (rule cloglog_derivative) simp_all
  then have t: "((\<lambda>x. linkfun 12 [x] ! 0) has_real_derivative 2 / ln 2) (at (1 / 2))"
    by (simp add: linkfun_pointwise half)
  have "\<not> ((\<lambda>x. linkfun 12 [x] ! 0) has_real_derivative - (2 / ln 2)) (at (1 / 2))"
  proof
    assume "((\<lambda>x. linkfun 12 [x] ! 0) has_real_derivative - (2 / ln 2)) (at (1 / 2))"
    then have "- (2 / ln 2) = 2 / ln (2::real)"
      using t by (rule DERIV_unique)
    then show False using pos by (simp add: field_simps)
  qed
  then show ?thesis using d t by simp
qed

text \<open>
  C4, as stated: a Binomial response above 1 fails with the message
  \<^verbatim>\<open># of success larger than 1\<close>. The source raises
  \<^verbatim>\<open># of success is larger than 1\<close>, which the quoted text neither equals nor begins.
\<close>

theorem initial_mu_message_counterexample:
  "initial_mu (\<lambda>i. 0) ''binomial'' [2] 1 = Inl (DomainError ''# of success is larger than 1'') \<and>
   initial_mu (\<lambda>i. 0) ''binomial'' [2] 1 \<noteq> Inl (DomainError ''# of success larger than 1'') \<and>
   \<not> prefix ''# of success larger than 1'' ''# of success is larger than 1''"
  using initial_mu_binomial[of "\<lambda>i. 0" "[2]"] by simp

text \<open>
  C4, amended. For a response vector \<open>y\<close> of length \<open>N\<close>:
  Binomial fails with a domain error if some \<open>y[i]\<close> is negative or exceeds 1, and the
  error is that of the first such element, with the message
  \<^verbatim>\<open>negative values not allowed for the Binomial family\<close> when it is negative and
  \<^verbatim>\<open># of success is larger than 1\<close> when it exceeds 1; otherwise
  \<open>mu[i] = (y[i] + 0.5) / 2\<close>.
  Poisson fails with a domain error
  (\<^verbatim>\<open>negative values not allowed for the Poisson family\<close>) if some \<open>y[i] < 0\<close>, and
  otherwise returns \<open>mu[i] = y[i] + 0.1\<close>. Gaussian returns \<open>y\<close>. Gamma fails with a
  domain error if some \<open>y[i] \<le> 0\<close> and otherwise returns \<open>mu[i] = y[i] + 0.1\<close>.
\<close>

theorem initial_mu_contract:
  "length y = N \<Longrightarrow>
   initial_mu fresh ''binomial'' y N =
     (case List.find (\<lambda>v. v < 0 \<or> 1 < v) y of
        None \<Rightarrow> Inr (map (\<lambda>v. (v + 0.5) / 2) y)
      | Some v \<Rightarrow> Inl (DomainError
          (if v < 0 then ''negative values not allowed for the Binomial family''
           else ''# of success is larger than 1''))) \<and>
   initial_mu fresh ''poisson'' y N =
     (case List.find (\<lambda>v. v < 0) y of
        None \<Rightarrow> Inr (map (\<lambda>v. v + 0.1) y)
      | Some v \<Rightarrow> Inl (DomainError ''negative values not allowed for the Poisson family'')) \<and>
   initial_mu fresh ''gaussian'' y N = Inr y \<and>
   (case List.find (\<lambda>v. v \<le> 0) y of
      None \<Rightarrow> initial_mu fresh ''Gamma'' y N = Inr (map (\<lambda>v. v + 0.1) y)
    | Some v \<Rightarrow> (\<exists>msg. initial_mu fresh ''Gamma'' y N = Inl (DomainError msg)))"
  using initial_mu_binomial[of fresh y] initial_mu_poisson[of fresh y]
    initial_mu_gaussian[of fresh y] initial_mu_Gamma[of fresh y]
  by (simp split: option.splits)

theorem initial_mu_contract_witness:
  "initial_mu (\<lambda>i. 0) ''binomial'' [0, 1] 2 = Inr [0.25, 0.75] \<and>
   initial_mu (\<lambda>i. 0) ''binomial'' [0.5, - 1, 2] 3 =
     Inl (DomainError ''negative values not allowed for the Binomial family'') \<and>
   initial_mu (\<lambda>i. 0) ''binomial'' [0.5, 2, - 1] 3 =
     Inl (DomainError ''# of success is larger than 1'') \<and>
   initial_mu (\<lambda>i. 0) ''poisson'' [0, 3] 2 = Inr [0.1, 3.1] \<and>
   initial_mu (\<lambda>i. 0) ''poisson'' [- 1] 1 =
     Inl (DomainError ''negative values not allowed for the Poisson family'') \<and>
   initial_mu (\<lambda>i. 0) ''gaussian'' [- 5, 7] 2 = Inr [- 5, 7] \<and>
   initial_mu (\<lambda>i. 0) ''Gamma'' [1, 2] 2 = Inr [1.1, 2.1] \<and>
   (\<exists>msg. initial_mu (\<lambda>i. 0) ''Gamma'' [1, 0] 2 = Inl (DomainError msg))"
  using initial_mu_contract[of "[0, 1]" 2 "\<lambda>i. 0"]
    initial_mu_contract[of "[0.5, - 1, 2]" 3 "\<lambda>i. 0"]
    initial_mu_contract[of "[0.5, 2, - 1]" 3 "\<lambda>i. 0"]
    initial_mu_contract[of "[0, 3]" 2 "\<lambda>i. 0"]
    initial_mu_contract[of "[- 1]" 1 "\<lambda>i. 0"]
    initial_mu_contract[of "[- 5, 7]" 2 "\<lambda>i. 0"]
    initial_mu_contract[of "[1, 2]" 2 "\<lambda>i. 0"]
    initial_mu_contract[of "[1, 0]" 2 "\<lambda>i. 0"]
  by simp

text \<open>
  C5. For each recognised family, \<open>muvalid\<close> returns a vector parallel to \<open>mu\<close> whose
  element \<open>i\<close> is true (the double \<open>1\<close>, otherwise \<open>0\<close>) exactly when \<open>mu[i]\<close> lies in
  the family's open interval: Binomial \<open>(0.0001, 0.9999)\<close>, Poisson \<open>(0.0001, \<infinity>)\<close>,
  Gamma \<open>(0.001, \<infinity>)\<close>; for Gaussian every element is true. The result does not depend
  on what the freshly allocated vector held.
\<close>

theorem muvalid_open_interval:
  "muvalid fresh ''binomial'' mu = Inr (map (\<lambda>m. of_bool (m \<in> {0.0001<..<0.9999})) mu) \<and>
   muvalid fresh ''poisson'' mu = Inr (map (\<lambda>m. of_bool (m \<in> {0.0001<..})) mu) \<and>
   muvalid fresh ''Gamma'' mu = Inr (map (\<lambda>m. of_bool (m \<in> {0.001<..})) mu) \<and>
   muvalid fresh ''gaussian'' mu = Inr (replicate (length mu) 1)"
  unfolding muvalid_binomial muvalid_poisson muvalid_Gamma muvalid_gaussian
  by (simp add: map_replicate_const)

text \<open>
  C6. For each recognised family, \<open>mu_adjust\<close> returns a vector of the length of \<open>mu\<close>:
  a Binomial element is clamped into \<open>[0.001, 0.999]\<close>, a Poisson or Gamma element is
  raised to \<open>0.001\<close> when it is below and has no upper clamp, and the Gaussian output is
  the input. Written with \<open>max\<close> and \<open>min\<close>, an element inside the range is unchanged
  and one outside moves to the nearest bound.
\<close>

theorem mu_adjust_clamps:
  "mu_adjust ''binomial'' mu = Inr (map (\<lambda>m. max 0.001 (min 0.999 m)) mu) \<and>
   mu_adjust ''poisson'' mu = Inr (map (\<lambda>m. max 0.001 m) mu) \<and>
   mu_adjust ''Gamma'' mu = Inr (map (\<lambda>m. max 0.001 m) mu) \<and>
   mu_adjust ''gaussian'' mu = Inr mu"
proof -
  have two: "(if m < 0.001 then 0.001 else if m > 0.999 then 0.999 else m) =
             max 0.001 (min 0.999 m)" for m :: real
    by (simp add: max_def min_def)
  have one: "(if m < 0.001 then 0.001 else m) = max 0.001 m" for m :: real
    by (simp add: max_def)
  show ?thesis
    unfolding mu_adjust_binomial mu_adjust_poisson mu_adjust_Gamma mu_adjust_gaussian two one
    by simp
qed

text \<open>
  C7. For each recognised family and a vector \<open>mu\<close> of any length and contents,
  \<open>varfun\<close> returns the variance function element by element: Binomial
  \<open>mu[i] * (1 - mu[i])\<close>, Poisson \<open>mu[i]\<close>, Gaussian the constant \<open>1\<close>, Gamma
  \<open>mu[i]\<^sup>2\<close>.
\<close>

theorem varfun_values:
  "varfun ''binomial'' mu = Inr (map (\<lambda>m. m * (1 - m)) mu) \<and>
   varfun ''poisson'' mu = Inr mu \<and>
   varfun ''gaussian'' mu = Inr (replicate (length mu) 1) \<and>
   varfun ''Gamma'' mu = Inr (map (\<lambda>m. m\<^sup>2) mu)"
  by (simp add: varfun_def vec_defs map2_simps power2_eq_square)

text \<open>
  C8. For the link code 11 (probit) and every code that is not one of 10, 12, 20, 30, 40,
  each of \<open>linkfun\<close>, \<open>dlink\<close> and \<open>invlink\<close> returns the all-zero vector of the length
  of its input. None of the three has a failing branch: their result type holds no error.
\<close>

theorem unknown_link_zero:
  "link \<notin> {10, 12, 20, 30, 40} \<Longrightarrow>
     linkfun link mu = replicate (length mu) 0 \<and>
     dlink link mu = replicate (length mu) 0 \<and>
     invlink link mu = replicate (length mu) 0"
  by (simp add: linkfun_def dlink_def invlink_def zeros_def Let_def)

theorem unknown_link_zero_witness:
  "linkfun 11 [0.5, 2] = [0, 0] \<and> dlink 11 [0.5, 2] = [0, 0] \<and> invlink 11 [0.5, 2] = [0, 0] \<and>
   linkfun 99 [0.5, 2] = [0, 0] \<and> dlink (- 1) [0.5, 2] = [0, 0] \<and> invlink 0 [0.5, 2] = [0, 0]"
  using unknown_link_zero[of 11 "[0.5, 2]"] unknown_link_zero[of 99 "[0.5, 2]"]
    unknown_link_zero[of "- 1" "[0.5, 2]"] unknown_link_zero[of 0 "[0.5, 2]"]
  by simp

text \<open>
  C9. For a family tag that is none of the four recognised ones, \<open>muvalid\<close>,
  \<open>mu_adjust\<close> and \<open>varfun\<close> stop with the message \<^verbatim>\<open>invalid family\<close> (followed in
  the source by a blank and a newline), whereas \<open>initial_mu\<close> does not fail: it returns the
  vector of length \<open>N\<close> it allocated, with whatever the storage held.
\<close>

theorem unknown_family:
  "family \<notin> {''binomial'', ''poisson'', ''gaussian'', ''Gamma''} \<Longrightarrow>
     muvalid fresh family mu = Inl (UnknownFamilyError (''invalid family '' @ [CHR 0x0A])) \<and>
     mu_adjust family mu = Inl (UnknownFamilyError (''invalid family '' @ [CHR 0x0A])) \<and>
     varfun family mu = Inl (UnknownFamilyError (''invalid family '' @ [CHR 0x0A])) \<and>
     initial_mu fresh family y N = Inr (arma_vec fresh N) \<and>
     length (arma_vec fresh N) = N"
  by (simp add: muvalid_def mu_adjust_def varfun_def initial_mu_def invalid_family_def
      length_arma_vec)

theorem unknown_family_witness:
  "muvalid (\<lambda>i. 7) ''Binomial'' [0.5] = Inl (UnknownFamilyError (''invalid family '' @ [CHR 0x0A])) \<and>
   mu_adjust ''Binomial'' [0.5] = Inl (UnknownFamilyError (''invalid family '' @ [CHR 0x0A])) \<and>
   varfun ''Binomial'' [0.5] = Inl (UnknownFamilyError (''invalid family '' @ [CHR 0x0A])) \<and>
   initial_mu (\<lambda>i. 7) ''Binomial'' [0, 1] 2 = Inr [7, 7]"
  using unknown_family[of "''Binomial''" "\<lambda>i. 7" "[0.5]" "[0, 1]" 2]
  by (simp add: arma_vec_def upt_rec)

text \<open>
  C10. For each recognised family and a response vector \<open>y\<close> of length \<open>N\<close> that
  meets the family's precondition (Binomial: every \<open>y[i]\<close> in \<open>[0, 1]\<close>; Poisson: every
  \<open>y[i] \<ge> 0\<close>; Gamma: every \<open>y[i] > 0\<close>; Gaussian: any \<open>y\<close>), \<open>initial_mu\<close> returns
  a vector of length \<open>N\<close>, and \<open>muvalid\<close> of that vector is true at every element.
\<close>

theorem initial_mu_admissible:
  "length y = N \<Longrightarrow>
   ((\<forall>v\<in>set y. 0 \<le> v \<and> v \<le> 1) \<longrightarrow>
      (\<exists>mu. initial_mu fresh ''binomial'' y N = Inr mu \<and> length mu = N \<and>
            muvalid fresh' ''binomial'' mu = Inr (replicate N 1))) \<and>
   ((\<forall>v\<in>set y. 0 \<le> v) \<longrightarrow>
      (\<exists>mu. initial_mu fresh ''poisson'' y N = Inr mu \<and> length mu = N \<and>
            muvalid fresh' ''poisson'' mu = Inr (replicate N 1))) \<and>
   ((\<forall>v\<in>set y. 0 < v) \<longrightarrow>
      (\<exists>mu. initial_mu fresh ''Gamma'' y N = Inr mu \<and> length mu = N \<and>
            muvalid fresh' ''Gamma'' mu = Inr (replicate N 1))) \<and>
   (\<exists>mu. initial_mu fresh ''gaussian'' y N = Inr mu \<and> length mu = N \<and>
         muvalid fresh' ''gaussian'' mu = Inr (replicate N 1))"
proof -
  assume len: "length y = N"
  have b: "\<exists>mu. initial_mu fresh ''binomial'' y N = Inr mu \<and> length mu = N \<and>
            muvalid fresh' ''binomial'' mu = Inr (replicate N 1)"
    if ok: "\<forall>v\<in>set y. 0 \<le> v \<and> v \<le> 1"
  proof -
    have "List.find (\<lambda>v. v < 0 \<or> 1 < v) y = None"
      using ok by (auto simp: find_None_iff)
    then have mu: "initial_mu fresh ''binomial'' y N = Inr (map (\<lambda>v. (v + 0.5) / 2) y)"
      using initial_mu_binomial[of fresh y] len by simp
    have "map (\<lambda>m. of_bool (m > 0.0001 \<and> m < 0.9999)) (map (\<lambda>v. (v + 0.5) / 2) y) =
          replicate (length (map (\<lambda>v. (v + 0.5) / 2) y)) (1::real)"
      by (rule all_one) (use ok in auto)
    then show ?thesis
      using mu len by (simp add: muvalid_binomial)
  qed
  have p: "\<exists>mu. initial_mu fresh ''poisson'' y N = Inr mu \<and> length mu = N \<and>
            muvalid fresh' ''poisson'' mu = Inr (replicate N 1)"
    if ok: "\<forall>v\<in>set y. 0 \<le> v"
  proof -
    have "List.find (\<lambda>v. v < 0) y = None"
      using ok by (auto simp: find_None_iff)
    then have mu: "initial_mu fresh ''poisson'' y N = Inr (map (\<lambda>v. v + 0.1) y)"
      using initial_mu_poisson[of fresh y] len by simp
    have "map (\<lambda>m. of_bool (m > 0.0001)) (map (\<lambda>v. v + 0.1) y) =
          replicate (length (map (\<lambda>v. v + 0.1) y)) (1::real)"
      by (rule all_one) (use ok in auto)
    then show ?thesis
      using mu len by (simp add: muvalid_poisson)
  qed
  have g: "\<exists>mu. initial_mu fresh ''Gamma'' y N = Inr mu \<and> length mu = N \<and>
            muvalid fresh' ''Gamma'' mu = Inr (replicate N 1)"
    if ok: "\<forall>v\<in>set y. 0 < v"
  proof -
    have "List.find (\<lambda>v. v \<le> 0) y = None"
      using ok by (auto simp: find_None_iff)
    then have mu: "initial_mu fresh ''Gamma'' y N = Inr (map (\<lambda>v. v + 0.1) y)"
      using initial_mu_Gamma[of fresh y] len by simp
    have "map (\<lambda>m. of_bool (m > 0.001)) (map (\<lambda>v. v + 0.1) y) =
          replicate (length (map (\<lambda>v. v + 0.1) y)) (1::real)"
      by (rule all_one) (use ok in auto)
    then show ?thesis
      using mu len by (simp add: muvalid_Gamma)
  qed
  have n: "\<exists>mu. initial_mu fresh ''gaussian'' y N = Inr mu \<and> length mu = N \<and>
         muvalid fresh' ''gaussian'' mu = Inr (replicate N 1)"
    using initial_mu_gaussian[of fresh y] len
    by (simp add: muvalid_gaussian map_replicate_const)
  from b p g n show ?thesis by blast
qed

theorem initial_mu_admissible_witness:
  "(\<exists>mu. initial_mu (\<lambda>i. 0) ''binomial'' [0, 1, 0.5] 3 = Inr mu \<and> length mu = 3 \<and>
         muvalid (\<lambda>i. 0) ''binomial'' mu = Inr (replicate 3 1)) \<and>
   (\<exists>mu. initial_mu (\<lambda>i. 0) ''poisson'' [0, 4] 2 = Inr mu \<and> length mu = 2 \<and>
         muvalid (\<lambda>i. 0) ''poisson'' mu = Inr (replicate 2 1)) \<and>
   (\<exists>mu. initial_mu (\<lambda>i. 0) ''Gamma'' [0.0001, 4] 2 = Inr mu \<and> length mu = 2 \<and>
         muvalid (\<lambda>i. 0) ''Gamma'' mu = Inr (replicate 2 1)) \<and>
   (\<exists>mu. initial_mu (\<lambda>i. 0) ''gaussian'' [- 3, 0] 2 = Inr mu \<and> length mu = 2 \<and>
         muvalid (\<lambda>i. 0) ''gaussian'' mu = Inr (replicate 2 1))"
  using initial_mu_admissible[of "[0, 1, 0.5]" 3 "\<lambda>i. 0" "\<lambda>i. 0"]
    initial_mu_admissible[of "[0, 4]" 2 "\<lambda>i. 0" "\<lambda>i. 0"]
    initial_mu_admissible[of "[0.0001, 4]" 2 "\<lambda>i. 0" "\<lambda>i. 0"]
    initial_mu_admissible[of "[- 3, 0]" 2 "\<lambda>i. 0" "\<lambda>i. 0"]
  by simp

end
